theory Spec2Isabelle
  imports Complex_Main "HOL-Library.Char_ord" "HOL-Library.List_Lexorder"
begin

section \<open>JavaScript values\<close>

text \<open>
  The frontend is JavaScript: every value it handles is a JSON value that came out of a
  response body, or \<open>undefined\<close>. A number is an IEEE double; its finite values are
  rationals, and the model keeps the exact value (the language definition itself computes
  \<open>toFixed\<close> on the exact real value). Positive and negative zero are both \<open>Fin 0\<close>.
  An object is the list of its own properties, in order.
\<close>

datatype jsnum = Fin rat | NaN | PosInf | NegInf

datatype jsval =
    JNull
  | JUndefined
  | JBool bool
  | JNum jsnum
  | JStr string
  | JArr "jsval list"
  | JObj "(string \<times> jsval) list"

text \<open>What a \<open>throw\<close> carries: the two built-in errors the modelled code can raise, or
  any value (axios rejects with an error object).\<close>

datatype js_exn = TypeError | RangeError | Thrown jsval

subsection \<open>Decimal digits\<close>

definition digit_char :: "nat \<Rightarrow> char" where
  "digit_char d = ''0123456789'' ! (d mod 10)"


fun digits :: "nat \<Rightarrow> string" where
  "digits n = (if n < 10 then [digit_char n] else digits (n div 10) @ [digit_char (n mod 10)])"

declare digits.simps [simp del]



subsection \<open>Number to string\<close>

text \<open>
  \<open>Number::toString\<close>. For an integer no larger in magnitude than \<open>2^53\<close> the result
  is the sign and the decimal digits. For any other finite number the language picks the
  shortest digit string that reads back as the same double, which depends on the binary
  representation: that part is the parameter \<open>numStr\<close>, applied to the exact value.
\<close>

definition numberToString :: "(rat \<Rightarrow> string) \<Rightarrow> jsnum \<Rightarrow> string" where
  "numberToString numStr x =
     (case x of
        NaN \<Rightarrow> ''NaN''
      | PosInf \<Rightarrow> ''Infinity''
      | NegInf \<Rightarrow> ''-Infinity''
      | Fin r \<Rightarrow>
          if of_int \<lfloor>r\<rfloor> = r \<and> \<bar>r\<bar> \<le> 2 ^ 53
          then (if r < 0 then ''-'' else '''') @ digits (nat \<lfloor>\<bar>r\<bar>\<rfloor>)
          else numStr r)"

text \<open>A number printer for closed examples; no example below reaches it.\<close>

definition no_numStr :: "rat \<Rightarrow> string" where
  "no_numStr r = ''''"

subsection \<open>Number.prototype.toFixed\<close>




section \<open>The stat formatter of the display components\<close>






section \<open>Built-in operations the components use\<close>

text \<open>
  Two conversions of the language depend on the binary representation of doubles or on the
  full grammar of numeric literals: \<open>Number::toString\<close> outside the integers up to
  \<open>2^53\<close> and \<open>StringToNumber\<close>. They are parameters of the model, so every
  theorem holds whatever they compute.
\<close>

record builtins =
  number_printer :: "rat \<Rightarrow> string"
  number_reader :: "string \<Rightarrow> jsnum"

text \<open>Builtins for closed examples; no example below reaches them.\<close>

definition no_builtins :: builtins where
  "no_builtins = \<lparr>number_printer = no_numStr, number_reader = (\<lambda>s. NaN)\<rparr>"

text \<open>\<open>ToBoolean\<close>: what \<open>if (v)\<close>, \<open>!v\<close>, \<open>v && w\<close> and \<open>v || w\<close> test.\<close>

fun truthy :: "jsval \<Rightarrow> bool" where
  "truthy JNull = False"
| "truthy JUndefined = False"
| "truthy (JBool b) = b"
| "truthy (JNum (Fin r)) = (r \<noteq> 0)"
| "truthy (JNum NaN) = False"
| "truthy (JNum PosInf) = True"
| "truthy (JNum NegInf) = True"
| "truthy (JStr s) = (s \<noteq> [])"
| "truthy (JArr xs) = True"
| "truthy (JObj kvs) = True"


text \<open>
  \<open>v.name\<close> for a data property \<open>name\<close>: a TypeError on \<open>null\<close> and
  \<open>undefined\<close>; the property of an object, \<open>undefined\<close> when it has none; the
  \<open>length\<close> of an array or a string; \<open>undefined\<close> on every other primitive.
  (Methods such as \<open>slice\<close> and \<open>map\<close> are modelled where they are called.)
\<close>

definition getProp :: "jsval \<Rightarrow> string \<Rightarrow> js_exn + jsval" where
  "getProp v name =
     (case v of
        JNull \<Rightarrow> Inl TypeError
      | JUndefined \<Rightarrow> Inl TypeError
      | JObj kvs \<Rightarrow> (case map_of kvs name of Some x \<Rightarrow> Inr x | None \<Rightarrow> Inr JUndefined)
      | JArr xs \<Rightarrow>
          if name = ''length'' then Inr (JNum (Fin (of_nat (length xs)))) else Inr JUndefined
      | JStr s \<Rightarrow>
          if name = ''length'' then Inr (JNum (Fin (of_nat (length s)))) else Inr JUndefined
      | _ \<Rightarrow> Inr JUndefined)"


definition bindE :: "'e + 'a \<Rightarrow> ('a \<Rightarrow> 'e + 'b) \<Rightarrow> 'e + 'b" where
  "bindE m f = (case m of Inl e \<Rightarrow> Inl e | Inr x \<Rightarrow> f x)"


fun join_comma :: "string list \<Rightarrow> string" where
  "join_comma [] = []"
| "join_comma [s] = s"
| "join_comma (s # t # ss) = s @ '','' @ join_comma (t # ss)"

text \<open>\<open>ToString\<close>, as a template literal and \<open>encodeURIComponent\<close> apply it. An array
  joins its elements with commas, \<open>null\<close> and \<open>undefined\<close> elements as the empty string.\<close>

fun toStr :: "builtins \<Rightarrow> jsval \<Rightarrow> string" where
  "toStr B JNull = ''null''"
| "toStr B JUndefined = ''undefined''"
| "toStr B (JBool b) = (if b then ''true'' else ''false'')"
| "toStr B (JNum x) = numberToString (number_printer B) x"
| "toStr B (JStr s) = s"
| "toStr B (JArr xs) =
     join_comma (map (\<lambda>e. if e = JNull \<or> e = JUndefined then [] else toStr B e) xs)"
| "toStr B (JObj kvs) = ''[object Object]''"



subsection \<open>encodeURIComponent\<close>

text \<open>
  A string is a list of code units below 256. The unreserved characters stay; any other
  character is written as the percent-escaped bytes of its UTF-8 encoding (one byte below
  128, two bytes from 128 to 255), in upper-case hexadecimal.
\<close>

definition hex_digit :: "nat \<Rightarrow> char" where
  "hex_digit d = ''0123456789ABCDEF'' ! (d mod 16)"

definition percent_byte :: "nat \<Rightarrow> string" where
  "percent_byte b = [CHR ''%'', hex_digit (b div 16), hex_digit (b mod 16)]"

definition uri_unreserved :: "char \<Rightarrow> bool" where
  "uri_unreserved c =
     (c \<in> set ''ABCDEFGHIJKLMNOPQRSTUVWXYZabcdefghijklmnopqrstuvwxyz0123456789-_.!~*()''
      \<or> c = CHR 0x27)"

definition encode_char :: "char \<Rightarrow> string" where
  "encode_char c =
     (let n = (of_char c :: nat)
      in if uri_unreserved c then [c]
         else if n < 128 then percent_byte n
         else percent_byte (192 + n div 64) @ percent_byte (128 + n mod 64))"

definition encodeURIComponent :: "string \<Rightarrow> string" where
  "encodeURIComponent s = concat (map encode_char s)"

section \<open>The API client (services/api.js)\<close>

text \<open>
  The axios instance is the network: a request either resolves with a response object or
  rejects with an error value.
\<close>

record http =
  http_get :: "string \<Rightarrow> js_exn + jsval"
  http_post :: "string \<Rightarrow> jsval \<Rightarrow> js_exn + jsval"

text \<open>A parameter declared \<open>p = null\<close> takes \<open>null\<close> when the argument is \<open>undefined\<close>.\<close>

definition default_null :: "jsval \<Rightarrow> jsval" where
  "default_null v = (if v = JUndefined then JNull else v)"

text \<open>
  \<^verbatim>\<open>
  export const getPlayerGameLogs = async (player1, player2, season = null, lastN = null) => {
    let url;
    if (season) {
      url = `/compare/players/${encodeURIComponent(player1)}/${encodeURIComponent(player2)}/game-logs/seasons/${season}`;
    } else {
      url = `/compare/players/${encodeURIComponent(player1)}/${encodeURIComponent(player2)}/game-logs/all-seasons`;
    }
    if (lastN) {
      url += `?last_n=${lastN}`;
    }
    const response = await api.get(url);
    return response.data;
  };
  \<close>
  \<open>getPlayerGameLogs_url\<close> is the URL the function requests.
\<close>

definition game_logs_prefix :: "builtins \<Rightarrow> jsval \<Rightarrow> jsval \<Rightarrow> string" where
  "game_logs_prefix B player1 player2 =
     ''/compare/players/'' @ encodeURIComponent (toStr B player1) @ ''/''
       @ encodeURIComponent (toStr B player2) @ ''/game-logs/''"

definition getPlayerGameLogs_url :: "builtins \<Rightarrow> jsval \<Rightarrow> jsval \<Rightarrow> jsval \<Rightarrow> jsval \<Rightarrow> string" where
  "getPlayerGameLogs_url B player1 player2 season0 lastN0 =
     (let season = default_null season0;
          lastN = default_null lastN0;
          url = (if truthy season
                 then game_logs_prefix B player1 player2 @ ''seasons/'' @ toStr B season
                 else game_logs_prefix B player1 player2 @ ''all-seasons'')
      in if truthy lastN then url @ ''?last_n='' @ toStr B lastN else url)"

definition getPlayerGameLogs ::
  "builtins \<Rightarrow> http \<Rightarrow> jsval \<Rightarrow> jsval \<Rightarrow> jsval \<Rightarrow> jsval \<Rightarrow> js_exn + jsval" where
  "getPlayerGameLogs B api player1 player2 season lastN =
     bindE (http_get api (getPlayerGameLogs_url B player1 player2 season lastN))
       (\<lambda>response. getProp response ''data'')"


section \<open>The query component (NaturalLanguageQuery)\<close>





subsection \<open>renderResult\<close>













section \<open>The head-to-head component (HeadToHead.jsx)\<close>






subsection \<open>The game-log table\<close>







section \<open>The query engine\<close>

text \<open>
  The engine behind \<open>POST /query\<close> (the project layout names it \<open>nlp_query.py\<close>) is
  not among the source files. Its Entity Resolver, Pattern Classifier and Query Interpreter
  are modelled from the specification, sections 3 and 4.1 to 4.3. What the specification
  leaves open is a parameter: how name spans are cut out of the text, which tokens count as
  season text, which words are stat keywords, and the fuzzy threshold.
\<close>

subsection \<open>Text\<close>

text \<open>How the engine normalizes and cuts up the query text, and its season and last-N
  captures: this code is not among the sources; 4.1 describes it.\<close>












subsection \<open>Names\<close>

text \<open>The string measures of the Entity Resolver's fuzzy tier: this code is not among the
  sources; 4.2 describes it.\<close>







subsection \<open>Data model\<close>

text \<open>The engine's data (section 3); its declarations are not among the sources.\<close>




text \<open>Modelled from the spec: the intents (section 3).\<close>

datatype intent_kind =
    PlayerStats
  | PlayerComparisonSeason
  | PlayerComparisonGameLogs
  | TeamComparisonSeason
  | TeamComparisonGameLogs
  | Unrecognized




subsection \<open>Entity Resolver\<close>

text \<open>\<open>resolve\<close> and its tiers and tie-break: this code is not among the sources; 4.2
  describes it.\<close>












subsection \<open>Pattern Classifier\<close>

text \<open>The shape rules: this code is not among the sources; 4.1 describes it.\<close>




subsection \<open>Query Interpreter\<close>

text \<open>\<open>interpret\<close>: this code is not among the sources; 4.3 describes it.\<close>






section \<open>Example data\<close>















section \<open>Properties\<close>















subsection \<open>Claim C10: the stat formatter\<close>




subsection \<open>Claim C9: the game-log request\<close>

lemma default_null_truthy: "truthy (default_null v) = truthy v"
  by (simp add: default_null_def)

lemma default_null_of_truthy: "truthy v \<Longrightarrow> default_null v = v"
  by (auto simp add: default_null_def)

lemma getPlayerGameLogs_url_eq:
  "getPlayerGameLogs_url B p1 p2 season lastN =
     (if truthy season then game_logs_prefix B p1 p2 @ ''seasons/'' @ toStr B season
      else game_logs_prefix B p1 p2 @ ''all-seasons'')
     @ (if truthy lastN then ''?last_n='' @ toStr B lastN else [])"
  by (simp add: getPlayerGameLogs_url_def Let_def default_null_truthy default_null_of_truthy)

text \<open>
  C9, as amended. \<open>getPlayerGameLogs\<close> requests the all-seasons URL exactly when
  \<open>season\<close> is falsy (\<open>null\<close>, an omitted argument, the empty string), otherwise the
  per-season URL, and appends \<open>?last_n=\<close> exactly when \<open>lastN\<close> is truthy: \<open>0\<close>,
  \<open>null\<close> and an omitted argument all give a request with no \<open>last_n\<close> parameter.
\<close>

theorem getPlayerGameLogs_url_selection:
  "getPlayerGameLogs_url B p1 p2 season lastN =
     (if truthy season then game_logs_prefix B p1 p2 @ ''seasons/'' @ toStr B season
      else game_logs_prefix B p1 p2 @ ''all-seasons'')
     @ (if truthy lastN then ''?last_n='' @ toStr B lastN else [])
   \<and> ((\<exists>q. getPlayerGameLogs_url B p1 p2 season lastN
             = game_logs_prefix B p1 p2 @ ''all-seasons'' @ q) = (\<not> truthy season))
   \<and> getPlayerGameLogs_url B p1 p2 season (JNum (Fin 0)) = getPlayerGameLogs_url B p1 p2 season JNull
   \<and> getPlayerGameLogs_url B p1 p2 season JUndefined = getPlayerGameLogs_url B p1 p2 season JNull
   \<and> getPlayerGameLogs_url B p1 p2 JUndefined lastN = getPlayerGameLogs_url B p1 p2 JNull lastN
   \<and> getPlayerGameLogs_url B p1 p2 (JStr []) lastN = getPlayerGameLogs_url B p1 p2 JNull lastN
   \<and> getPlayerGameLogs B api p1 p2 season lastN
       = bindE (http_get api (getPlayerGameLogs_url B p1 p2 season lastN))
           (\<lambda>response. getProp response ''data'')"
  by (auto simp add: getPlayerGameLogs_url_eq getPlayerGameLogs_def)

text \<open>C9 as stated fails: the empty string is not \<open>null\<close>, and it selects the
  all-seasons URL.\<close>

theorem getPlayerGameLogs_empty_season_counterexample:
  "getPlayerGameLogs_url no_builtins (JStr ''Stephen Curry'') (JStr ''LeBron James'') (JStr []) JNull
     = ''/compare/players/Stephen%20Curry/LeBron%20James/game-logs/all-seasons''
   \<and> JStr [] \<noteq> JNull"
  by (simp add: getPlayerGameLogs_url_eq game_logs_prefix_def encodeURIComponent_def
      encode_char_def uri_unreserved_def percent_byte_def hex_digit_def digit_char_def)

lemma getPlayerGameLogs_url_example:
  "getPlayerGameLogs_url no_builtins (JStr ''Stephen Curry'') (JStr ''LeBron James'') (JStr ''2023-24'') (JNum (Fin 5))
     = ''/compare/players/Stephen%20Curry/LeBron%20James/game-logs/seasons/2023-24?last_n=5''"
  by (simp add: getPlayerGameLogs_url_eq game_logs_prefix_def encodeURIComponent_def
      encode_char_def uri_unreserved_def percent_byte_def hex_digit_def digit_char_def
      numberToString_def digits.simps)

subsection \<open>Claim C3: how many game logs are returned and presented\<close>














subsection \<open>Claim C6: unique and ambiguous resolutions\<close>





















subsection \<open>Claim C5: season tokens\<close>














end
